theory Spec2Isabelle
  imports Main
begin

section \<open>SomnoSearch: the ObjectCreator of src/object\_creator.py\<close>

text \<open>
  The module turns one row of a table (a pandas Series) into FHIR objects of the
  fhirclient library. Every Python exception is a value of \<open>error\<close>; a function of
  the source that can raise returns \<open>error + 'a\<close>, with \<open>Inl\<close> the exception.

  Strings are \<open>string\<close>, one \<open>char\<close> per code point; the model covers the code
  points below 256, where the decimal digits of the regular expression class
  \<^verbatim>\<open>\d\<close> and of \<^verbatim>\<open>int()\<close> are exactly \<^verbatim>\<open>0\<close> to \<^verbatim>\<open>9\<close>.
  The interpreter runs with assertions enabled (no \<^verbatim>\<open>-O\<close>).
\<close>

subsection \<open>Exceptions and cell values\<close>

datatype error =
    IndexError
  | AssertionError
  | AttributeError string
  | KeyError string
  | NameError string
  | TypeError
  | ValueError
  | OutOfBoundsDatetime
  | Exception string

text \<open>A cell of a row: a Python \<^verbatim>\<open>str\<close> or an integer.\<close>

datatype cell = PyStr string | PyInt int

text \<open>A row is a pandas Series with a label index: \<^verbatim>\<open>row.name\<close> raises
  AttributeError and \<^verbatim>\<open>row[name]\<close> raises KeyError when the label is absent.\<close>

type_synonym row = "string \<rightharpoonup> cell"

definition getattr :: "row \<Rightarrow> string \<Rightarrow> error + cell" where
  "getattr r name = (case r name of None \<Rightarrow> Inl (AttributeError name) | Some v \<Rightarrow> Inr v)"

definition getitem :: "row \<Rightarrow> string \<Rightarrow> error + cell" where
  "getitem r name = (case r name of None \<Rightarrow> Inl (KeyError name) | Some v \<Rightarrow> Inr v)"

subsection \<open>Decimal numerals: \<^verbatim>\<open>str()\<close> and \<^verbatim>\<open>int()\<close>\<close>

definition digit_char :: "nat \<Rightarrow> char" where
  "digit_char n = ''0123456789'' ! (n mod 10)"

definition is_digit :: "char \<Rightarrow> bool" where
  "is_digit c = (c \<in> set ''0123456789'')"

definition digit_val :: "char \<Rightarrow> nat" where
  "digit_val c = of_char c - 48"

fun str_nat :: "nat \<Rightarrow> string" where
  "str_nat n = (if n < 10 then [digit_char n] else str_nat (n div 10) @ [digit_char n])"

declare str_nat.simps [simp del]

definition str_int :: "int \<Rightarrow> string" where
  "str_int i = (if i < 0 then CHR ''-'' # str_nat (nat (- i)) else str_nat (nat i))"

text \<open>\<^verbatim>\<open>str(x)\<close> on a cell.\<close>

fun py_str :: "cell \<Rightarrow> string" where
  "py_str (PyStr s) = s"
| "py_str (PyInt i) = str_int i"

text \<open>\<^verbatim>\<open>int(s)\<close> on a string of decimal digits (the only strings the source
  passes are groups of the date pattern).\<close>

definition int_of_digits :: "string \<Rightarrow> nat" where
  "int_of_digits s = foldl (\<lambda>a c. 10 * a + digit_val c) 0 s"

subsection \<open>String operations\<close>

text \<open>\<^verbatim>\<open>s.split(sep, maxsplit=-1)\<close> for a separator of one character: a cut at
  every occurrence, never an empty list.\<close>

fun split :: "char \<Rightarrow> string \<Rightarrow> string list" where
  "split sep [] = [[]]"
| "split sep (c # cs) =
     (if c = sep then [] # split sep cs
      else (case split sep cs of [] \<Rightarrow> [[c]] | w # ws \<Rightarrow> (c # w) # ws))"

text \<open>\<^verbatim>\<open>xs[i]\<close> for a non-negative index.\<close>

definition index :: "'a list \<Rightarrow> nat \<Rightarrow> error + 'a" where
  "index xs i = (if i < length xs then Inr (xs ! i) else Inl IndexError)"

text \<open>\<^verbatim>\<open>s[1:-2]\<close>: from the second character up to, and without, the last two.\<close>

definition slice_1_m2 :: "string \<Rightarrow> string" where
  "slice_1_m2 s = drop 1 (take (length s - 2) s)"

subsection \<open>The process a call runs in\<close>

text \<open>
  What a call can read beyond its arguments: the wall clock (read by
  \<^verbatim>\<open>gmtime()\<close>), the text the platform's \<^verbatim>\<open>strftime\<close> renders for
  \<^verbatim>\<open>%z\<close> on a UTC time structure, and whether the global name
  \<^verbatim>\<open>ResourceName\<close> is bound in the module: the module imports it only under
  \<^verbatim>\<open>if TYPE_CHECKING:\<close>, which is false at run time, so the name is bound only
  when the importing program has put it there.
\<close>

record world =
  clock :: int
  tz_format :: string
  ResourceName_bound :: bool

type_synonym struct_time = int

definition gmtime :: "world \<Rightarrow> struct_time" where
  "gmtime w = clock w"

definition strftime_z :: "world \<Rightarrow> struct_time \<Rightarrow> string" where
  "strftime_z w t = tz_format w"

subsection \<open>fhirclient objects\<close>

text \<open>\<^verbatim>\<open>FHIRDate(s)\<close> keeps the string it was built from.\<close>

datatype FHIRDate = FHIRDate string

subsection \<open>Temporal parsing\<close>

definition parse_date_time :: "world \<Rightarrow> cell \<Rightarrow> error + FHIRDate" where
  "parse_date_time w datetime_str =
     (case index (split CHR '' '' (py_str datetime_str)) 0 of Inl e \<Rightarrow> Inl e
      | Inr case_date \<Rightarrow>
     (case index (split CHR '' '' (py_str datetime_str)) 1 of Inl e \<Rightarrow> Inl e
      | Inr t1 \<Rightarrow>
     (case index (split CHR ''.'' t1) 0 of Inl e \<Rightarrow> Inl e
      | Inr case_time \<Rightarrow>
     (case index (split CHR '' '' (py_str datetime_str)) 1 of Inl e \<Rightarrow> Inl e
      | Inr t2 \<Rightarrow>
     (case index (split CHR ''.'' t2) 1 of Inl e \<Rightarrow> Inl e
      | Inr frac \<Rightarrow>
        let case_ms = take 3 frac;
            case_tz = take 3 (strftime_z w (gmtime w)) @ '':''
                      @ slice_1_m2 (strftime_z w (gmtime w))
        in Inr (FHIRDate (case_date @ ''T'' @ case_time @ ''.'' @ case_ms @ case_tz)))))))"


text \<open>The compiled pattern \<^verbatim>\<open>(?P<day>\d{2})\.(?P<month>\d{2})\.(?P<year>\d{4})\<close>
  applied with \<^verbatim>\<open>match\<close>: anchored at the first character, nothing asked of what
  follows the tenth. The result holds the three named groups.\<close>

fun DATE_PATTERN_match :: "string \<Rightarrow> (string \<times> string \<times> string) option" where
  "DATE_PATTERN_match (d1 # d2 # p1 # m1 # m2 # p2 # y1 # y2 # y3 # y4 # rest) =
     (if is_digit d1 \<and> is_digit d2 \<and> p1 = CHR ''.'' \<and> is_digit m1 \<and> is_digit m2
         \<and> p2 = CHR ''.'' \<and> is_digit y1 \<and> is_digit y2 \<and> is_digit y3 \<and> is_digit y4
      then Some ([d1, d2], [m1, m2], [y1, y2, y3, y4]) else None)"
| "DATE_PATTERN_match _ = None"

text \<open>
  \<^verbatim>\<open>pd.Timestamp(day=.., month=.., year=..)\<close> of pandas with nanosecond
  resolution: the fields go through the \<^verbatim>\<open>datetime\<close> constructor (ValueError
  unless they are a date of the proleptic Gregorian calendar in the years 1 to 9999),
  and midnight of that day must lie between \<^verbatim>\<open>Timestamp.min\<close>
  (1677-09-21 00:12:43.1) and \<^verbatim>\<open>Timestamp.max\<close> (2262-04-11 23:47:16.8).
\<close>

record Timestamp =
  ts_year :: nat
  ts_month :: nat
  ts_day :: nat

definition is_leap :: "nat \<Rightarrow> bool" where
  "is_leap y = (y mod 4 = 0 \<and> (y mod 100 \<noteq> 0 \<or> y mod 400 = 0))"

definition days_in_month :: "nat \<Rightarrow> nat \<Rightarrow> nat" where
  "days_in_month y m =
     (if m = 2 then (if is_leap y then 29 else 28)
      else if m = 4 \<or> m = 6 \<or> m = 9 \<or> m = 11 then 30 else 31)"

definition calendar_date :: "nat \<Rightarrow> nat \<Rightarrow> nat \<Rightarrow> bool" where
  "calendar_date day month year =
     (1 \<le> year \<and> year \<le> 9999 \<and> 1 \<le> month \<and> month \<le> 12
      \<and> 1 \<le> day \<and> day \<le> days_in_month year month)"

definition date_le :: "nat \<times> nat \<times> nat \<Rightarrow> nat \<times> nat \<times> nat \<Rightarrow> bool" where
  "date_le a b =
     (case a of (y1, m1, d1) \<Rightarrow> case b of (y2, m2, d2) \<Rightarrow>
        y1 < y2 \<or> (y1 = y2 \<and> (m1 < m2 \<or> (m1 = m2 \<and> d1 \<le> d2))))"

definition in_Timestamp_bounds :: "nat \<Rightarrow> nat \<Rightarrow> nat \<Rightarrow> bool" where
  "in_Timestamp_bounds day month year =
     (date_le (1677, 9, 22) (year, month, day) \<and> date_le (year, month, day) (2262, 4, 11))"

definition pd_Timestamp :: "nat \<Rightarrow> nat \<Rightarrow> nat \<Rightarrow> error + Timestamp" where
  "pd_Timestamp day month year =
     (if \<not> calendar_date day month year then Inl ValueError
      else if \<not> in_Timestamp_bounds day month year then Inl OutOfBoundsDatetime
      else Inr \<lparr>ts_year = year, ts_month = month, ts_day = day\<rparr>)"

text \<open>\<^verbatim>\<open>%Y\<close>, \<^verbatim>\<open>%m\<close> and \<^verbatim>\<open>%d\<close> are decimal, filled with zeros
  to four, two and two digits.\<close>

definition zfill :: "nat \<Rightarrow> string \<Rightarrow> string" where
  "zfill k s = replicate (k - length s) CHR ''0'' @ s"

definition strftime_Ymd :: "Timestamp \<Rightarrow> string" where
  "strftime_Ymd ts =
     zfill 4 (str_nat (ts_year ts)) @ ''-'' @ zfill 2 (str_nat (ts_month ts))
     @ ''-'' @ zfill 2 (str_nat (ts_day ts))"

definition parse_date :: "string \<Rightarrow> error + FHIRDate" where
  "parse_date date_str =
     (case DATE_PATTERN_match date_str of
        None \<Rightarrow> Inl AssertionError
      | Some (g_day, g_month, g_year) \<Rightarrow>
          let day = int_of_digits g_day;
              month = int_of_digits g_month;
              year = int_of_digits g_year
          in (case pd_Timestamp day month year of
                Inl e \<Rightarrow> Inl e
              | Inr ts \<Rightarrow> Inr (FHIRDate (strftime_Ymd ts))))"

subsection \<open>Gender, references, identifiers\<close>

definition map_gender :: "cell \<Rightarrow> error + string" where
  "map_gender gender =
     (if gender = PyStr ''m'' then Inr ''male''
      else if gender = PyStr ''f'' \<or> gender = PyStr ''w'' then Inr ''female''
      else Inl (Exception (''Unknown gender code '' @ py_str gender)))"

text \<open>Modelled from the spec: the enumeration \<^verbatim>\<open>ResourceName\<close> of the module
  \<^verbatim>\<open>etl_process\<close>, which is not among the sources. The spec gives it the members
  Patient and Encounter at least, and the textual form \<^verbatim>\<open><ResourceType>/<id>\<close>
  of a reference, so the value of a member is the name of its resource type.\<close>

datatype ResourceName = PATIENT | ENCOUNTER

fun ResourceName_value :: "ResourceName \<Rightarrow> string" where
  "ResourceName_value PATIENT = ''Patient''"
| "ResourceName_value ENCOUNTER = ''Encounter''"

text \<open>The expression \<^verbatim>\<open>ResourceName.PATIENT\<close> inside a method: a look-up of the
  global name at the time of the call.\<close>

definition ResourceName_PATIENT :: "world \<Rightarrow> error + ResourceName" where
  "ResourceName_PATIENT w =
     (if ResourceName_bound w then Inr PATIENT else Inl (NameError ''ResourceName''))"

record FHIRReference =
  ref_type :: string
  ref_reference :: string

record Identifier =
  ident_value :: cell

definition construct_reference :: "ResourceName \<Rightarrow> string \<Rightarrow> FHIRReference" where
  "construct_reference resource_name ref_id =
     (let resource_str = ResourceName_value resource_name
      in \<lparr>ref_type = resource_str, ref_reference = resource_str @ ''/'' @ ref_id\<rparr>)"

definition construct_identifier :: "cell \<Rightarrow> Identifier list" where
  "construct_identifier identifier = [\<lparr>ident_value = identifier\<rparr>]"

subsection \<open>The LOINC table of observation columns\<close>

text \<open>
  The class attribute \<^verbatim>\<open>_observation_loinc_mapping_dict\<close>: thirteen keys in the
  order of the source, each with a tuple of three strings (code, unit, display). A
  tuple is the list of its components, so that unpacking it into a number of names is
  a check of its length, as in Python. The second key holds a no-break space
  (code point 160) where the others hold a space.
\<close>

definition observation_loinc_mapping_dict :: "(string \<times> string list) list" where
  "observation_loinc_mapping_dict =
    [(''Apnoe Index (n/h)'', [''90562-0'', ''{events}/h'', ''Apnea index'']),
     (''Hypnopnoe'' @ [CHR 0xA0] @ ''Index (n/h)'',
        [''90561-2'', ''{events}/h'', ''Hypopnea index'']),
     (''RERA Index (n/h)'',
        [''90565-3'', ''{events}/h'', ''Respiratory effort-related arousal index'']),
     (''AHI'', [''69990-0'', ''{events}/h'', ''Apnea hypopnea index 24 hour'']),
     (''RDI'', [''90566-1'', ''{events}/h'', ''Respiratory disturbance index'']),
     (''RDI / AHI (n/h)'', [[], ''{events}/h'', []]),
     (''Schlaflatenz (min)'', [[], ''min'', []]),
     (''Alter (Jahre)'', [''30525-0'', ''a'', ''Age'']),
     (''Arousal Index (n/h)'', [[], ''{events}/h'', []]),
     (''Schnarchzeit (min)'', [[], ''min'', []]),
     (''totale Schlafzeit (min)'', [''93832-4'', ''min'', ''Sleep duration'']),
     (''Schnarchen Total (%TST)'', [[], ''%'', []]),
     (''PLM Index'', [[], [], []])]"

text \<open>Unpacking a sequence into two or three targets: ValueError unless the
  sequence has exactly that many elements.\<close>

fun unpack2 :: "'a list \<Rightarrow> error + 'a \<times> 'a" where
  "unpack2 [a, b] = Inr (a, b)"
| "unpack2 _ = Inl ValueError"

fun unpack3 :: "'a list \<Rightarrow> error + 'a \<times> 'a \<times> 'a" where
  "unpack3 [a, b, c] = Inr (a, b, c)"
| "unpack3 _ = Inl ValueError"

text \<open>Iterating a string gives its characters, each a string of length one.\<close>

definition iter_str :: "string \<Rightarrow> string list" where
  "iter_str s = map (\<lambda>c. [c]) s"

text \<open>The message of \<^verbatim>\<open>warn(..)\<close> goes to the log; a call returns the messages
  it has logged beside its value.\<close>

type_synonym log = "string list"

definition code_unknown_msg :: "string \<Rightarrow> string" where
  "code_unknown_msg column_name =
     ''Code is unknown for column name: '' @ [CHR 0x22] @ column_name @ [CHR 0x22]"

definition resolve_observation_column :: "string \<Rightarrow> error + (string list \<times> log)" where
  "resolve_observation_column column_name =
     (if column_name \<notin> set (map fst observation_loinc_mapping_dict)
      then Inl (Exception (''Invalid column name: '' @ [CHR 0x22] @ column_name @ [CHR 0x22]))
      else (case map_of observation_loinc_mapping_dict column_name of
              None \<Rightarrow> Inl (KeyError column_name)
            | Some entry \<Rightarrow>
               (case unpack2 entry of
                  Inl e \<Rightarrow> Inl e
                | Inr (code, unit) \<Rightarrow>
                    Inr (entry, if code = [] then [code_unknown_msg column_name] else []))))"

subsection \<open>Resources\<close>

record Period =
  period_start :: FHIRDate
  period_end :: FHIRDate

record Encounter =
  enc_identifier :: "Identifier list"
  enc_resource_type :: string
  enc_status :: string
  enc_period :: Period
  enc_subject :: FHIRReference

record HumanName =
  name_given :: "cell list"
  name_family :: cell

record Address =
  addr_line :: "cell list"
  addr_postalCode :: string
  addr_city :: cell

record Patient =
  pat_identifier :: "Identifier list"
  pat_name :: "HumanName list"
  pat_gender :: string
  pat_birthDate :: FHIRDate
  pat_address :: "Address list"

text \<open>A field that the code never assigns keeps the \<^verbatim>\<open>None\<close> the constructor
  gave it: \<open>coding_display\<close> is optional.\<close>

record Coding =
  coding_system :: string
  coding_version :: string
  coding_code :: cell
  coding_display :: "string option"

record CodeableConcept =
  cc_coding :: "Coding list"

record Condition =
  cond_identifier :: "Identifier list"
  cond_subject :: FHIRReference
  cond_code :: CodeableConcept
  cond_category :: string

record Quantity =
  quantity_value :: cell
  quantity_unit :: string

record Observation =
  obs_status :: string
  obs_code :: Coding
  obs_subject :: FHIRReference
  obs_valueQuantity :: Quantity

record Procedure =
  proc_identifier :: "Identifier list"
  proc_status :: string
  proc_subject :: FHIRReference
  proc_code :: CodeableConcept

subsection \<open>The builders\<close>

text \<open>Statements run in the order of the source; the first one that raises ends the
  call with its exception.\<close>

definition bind_err :: "error + 'a \<Rightarrow> ('a \<Rightarrow> error + 'b) \<Rightarrow> error + 'b" where
  "bind_err m f = (case m of Inl e \<Rightarrow> Inl e | Inr x \<Rightarrow> f x)"

definition create_encounter :: "world \<Rightarrow> row \<Rightarrow> string \<Rightarrow> error + Encounter" where
  "create_encounter w case_row subject_ref_id =
     bind_err (getattr case_row ''admission'') (\<lambda>admission.
     bind_err (parse_date_time w admission) (\<lambda>p_start.
     bind_err (getattr case_row ''discharge'') (\<lambda>discharge.
     bind_err (parse_date_time w discharge) (\<lambda>p_end.
     bind_err (getattr case_row ''id'') (\<lambda>ident.
     bind_err (ResourceName_PATIENT w) (\<lambda>resource_name.
       Inr \<lparr>enc_identifier = construct_identifier ident,
            enc_resource_type = ''Encounter'',
            enc_status = ''finished'',
            enc_period = \<lparr>period_start = p_start, period_end = p_end\<rparr>,
            enc_subject = construct_reference resource_name subject_ref_id\<rparr>))))))"

text \<open>\<^verbatim>\<open>DATE_PATTERN.match(x)\<close> raises TypeError when \<open>x\<close> is not a string.\<close>

fun parse_date_arg :: "cell \<Rightarrow> error + FHIRDate" where
  "parse_date_arg (PyStr s) = parse_date s"
| "parse_date_arg (PyInt i) = Inl TypeError"

definition create_patient :: "row \<Rightarrow> error + Patient" where
  "create_patient patient_row =
     bind_err (getattr patient_row ''first_name'') (\<lambda>first_name.
     bind_err (getattr patient_row ''last_name'') (\<lambda>last_name.
     bind_err (getattr patient_row ''street'') (\<lambda>street.
     bind_err (getattr patient_row ''zip'') (\<lambda>zip.
     bind_err (getattr patient_row ''city'') (\<lambda>city.
     bind_err (getattr patient_row ''id'') (\<lambda>ident.
     bind_err (getattr patient_row ''sex'') (\<lambda>sex.
     bind_err (map_gender sex) (\<lambda>gender.
     bind_err (getattr patient_row ''date_of_birth'') (\<lambda>date_of_birth.
     bind_err (parse_date_arg date_of_birth) (\<lambda>birth_date.
       Inr \<lparr>pat_identifier = construct_identifier ident,
            pat_name = [\<lparr>name_given = [first_name], name_family = last_name\<rparr>],
            pat_gender = gender,
            pat_birthDate = birth_date,
            pat_address = [\<lparr>addr_line = [street], addr_postalCode = py_str zip,
                             addr_city = city\<rparr>]\<rparr>))))))))))"

text \<open>The first assertion reads the attribute \<^verbatim>\<open>sytem\<close>, as the source spells it.
  The line \<^verbatim>\<open>coding.display: diagnose_row.type\<close> is an annotation without a
  value: inside a function it evaluates nothing and assigns nothing. The parameter
  \<^verbatim>\<open>encounter_ref_id\<close> is not used.\<close>

definition create_condition :: "world \<Rightarrow> row \<Rightarrow> string \<Rightarrow> string \<Rightarrow> error + Condition" where
  "create_condition w diagnose_row subject_ref_id encounter_ref_id =
     bind_err (getattr diagnose_row ''sytem'') (\<lambda>sytem.
     if sytem \<noteq> PyStr ''ICD-10-GM'' then Inl AssertionError else
     bind_err (getattr diagnose_row ''version'') (\<lambda>version.
     if version \<noteq> PyStr ''2020'' then Inl AssertionError else
     bind_err (getattr diagnose_row ''code'') (\<lambda>row_code.
     let coding = \<lparr>coding_system = ''http://fhir.de/CodeSystem/dimdi/icd-10-gm'',
                    coding_version = ''2020'',
                    coding_code = row_code,
                    coding_display = None\<rparr>;
         code = \<lparr>cc_coding = [coding]\<rparr>
     in
     bind_err (getattr diagnose_row ''id'') (\<lambda>ident.
     bind_err (ResourceName_PATIENT w) (\<lambda>resource_name.
       Inr \<lparr>cond_identifier = construct_identifier ident,
            cond_subject = construct_reference resource_name subject_ref_id,
            cond_code = code,
            cond_category = ''encounter-diagnosis''\<rparr>)))))"

definition create_procedure :: "world \<Rightarrow> row \<Rightarrow> string \<Rightarrow> error + Procedure" where
  "create_procedure w procedure_row subject_ref_id =
     bind_err (getattr procedure_row ''code_system'') (\<lambda>code_system.
     if code_system \<noteq> PyStr ''OPS'' then Inl AssertionError else
     bind_err (getattr procedure_row ''code_version'') (\<lambda>code_version.
     if code_version \<noteq> PyStr ''2020'' then Inl AssertionError else
     bind_err (getattr procedure_row ''code'') (\<lambda>row_code.
     let coding = \<lparr>coding_system = ''http://fhir.de/CodeSystem/dimdi/ops'',
                    coding_version = ''2020'',
                    coding_code = row_code,
                    coding_display = None\<rparr>;
         code = \<lparr>cc_coding = [coding]\<rparr>
     in
     bind_err (getattr procedure_row ''id'') (\<lambda>ident.
     bind_err (ResourceName_PATIENT w) (\<lambda>resource_name.
       Inr \<lparr>proc_identifier = construct_identifier ident,
            proc_status = ''completed'',
            proc_subject = construct_reference resource_name subject_ref_id,
            proc_code = code\<rparr>)))))"

text \<open>
  The loop of \<^verbatim>\<open>create_observation\<close> runs over the dictionary itself, which
  yields its keys. Each key, a string, is unpacked into the target
  \<^verbatim>\<open>column_name, (obs_loinc_code, unit, display)\<close>: the string must have two
  characters, and the second, a string of one character, must have three. The body
  then runs as written: \<^verbatim>\<open>code = coding\<close> replaces the CodeableConcept, so the
  observation holds the Coding.
\<close>

fun observation_loop ::
  "world \<Rightarrow> row \<Rightarrow> string \<Rightarrow> string list \<Rightarrow> Observation list \<times> log
     \<Rightarrow> error + (Observation list \<times> log)" where
  "observation_loop w observation_row subject_ref_id [] acc = Inr acc"
| "observation_loop w observation_row subject_ref_id (key # keys) (observation_list, lg) =
     bind_err (unpack2 (iter_str key)) (\<lambda>(column_name, rest).
     bind_err (unpack3 (iter_str rest)) (\<lambda>(obs_loinc_code, unit, display).
     let lg' = (if obs_loinc_code = [] then lg @ [code_unknown_msg column_name] else lg);
         coding = \<lparr>coding_system = ''http://loinc.org'',
                    coding_version = ''2.69'',
                    coding_code = PyStr obs_loinc_code,
                    coding_display = Some display\<rparr>
     in
     bind_err (getitem observation_row column_name) (\<lambda>v.
     let quantity = \<lparr>quantity_value = v, quantity_unit = unit\<rparr>;
         code = coding
     in
     bind_err (ResourceName_PATIENT w) (\<lambda>resource_name.
     let observation = \<lparr>obs_status = ''final'',
                         obs_code = code,
                         obs_subject = construct_reference resource_name subject_ref_id,
                         obs_valueQuantity = quantity\<rparr>
     in observation_loop w observation_row subject_ref_id keys
          (observation_list @ [observation], lg')))))"

definition create_observation ::
  "world \<Rightarrow> row \<Rightarrow> string \<Rightarrow> error + (Observation list \<times> log)" where
  "create_observation w observation_row subject_ref_id =
     observation_loop w observation_row subject_ref_id
       (map fst observation_loinc_mapping_dict) ([], [])"

text \<open>The attributes of the row that \<^verbatim>\<open>create_patient\<close> reads, in the order of
  the source.\<close>

definition patient_fields :: "string list" where
  "patient_fields = [''first_name'', ''last_name'', ''street'', ''zip'', ''city'', ''id'',
                     ''sex'', ''date_of_birth'']"

section \<open>Properties\<close>

subsection \<open>Observation columns\<close>

lemma entries_have_three:
  "map_of observation_loinc_mapping_dict column_name = Some entry \<Longrightarrow> length entry = 3"
  by (auto simp: observation_loinc_mapping_dict_def split: if_splits)

lemma unpack2_three: "length xs = 3 \<Longrightarrow> unpack2 xs = Inl ValueError"
  by (cases xs rule: unpack2.cases) auto

text \<open>Every name of the table ends in the ValueError of the unpacking, before the
  warning and before the return; every other name ends in the exception of the guard.\<close>

lemma resolve_present:
  assumes "column_name \<in> set (map fst observation_loinc_mapping_dict)"
  shows "resolve_observation_column column_name = Inl ValueError"
proof -
  from assms obtain entry
    where e: "map_of observation_loinc_mapping_dict column_name = Some entry"
    by (metis map_of_eq_None_iff not_None_eq set_map)
  then have "unpack2 entry = Inl ValueError"
    by (simp add: entries_have_three unpack2_three)
  with assms e show ?thesis by (simp add: resolve_observation_column_def)
qed

lemma resolve_absent:
  "column_name \<notin> set (map fst observation_loinc_mapping_dict) \<Longrightarrow>
   resolve_observation_column column_name =
     Inl (Exception (''Invalid column name: '' @ [CHR 0x22] @ column_name @ [CHR 0x22]))"
  by (simp add: resolve_observation_column_def)

lemma create_observation_raises:
  "create_observation w observation_row subject_ref_id = Inl ValueError"
  by (simp add: create_observation_def observation_loinc_mapping_dict_def iter_str_def
      bind_err_def)

text \<open>
  C1. The claim asks for one Observation per entry of the table. The loop iterates the
  dictionary, not its items, so the first key, a string of seventeen characters, is
  unpacked into two targets: on a row that holds the number 12 under each of the
  thirteen column names the call raises ValueError and returns no list.
\<close>

theorem create_observation_full_row_raises:
  "create_observation \<lparr>clock = 0, tz_format = ''+0000'', ResourceName_bound = True\<rparr>
     (map_of (map (\<lambda>key. (key, PyInt 12)) (map fst observation_loinc_mapping_dict)))
     ''P1''
   = Inl ValueError"
  by (rule create_observation_raises)

text \<open>
  C2. The claim asks for the triple of the entry. The entry of \<^verbatim>\<open>AHI\<close> has three
  components and the code unpacks it into the two names \<^verbatim>\<open>code, unit\<close>: the call
  raises ValueError.
\<close>

theorem resolve_AHI_raises:
  "resolve_observation_column ''AHI'' = Inl ValueError"
  by (simp add: resolve_observation_column_def observation_loinc_mapping_dict_def)

text \<open>
  C3. The claim asks for a normal return with the empty code and a warning. The entry
  of \<^verbatim>\<open>RDI / AHI (n/h)\<close> is unpacked like every other: the call raises ValueError
  before it reaches the test of the code, and logs nothing.
\<close>

theorem resolve_empty_code_raises:
  "resolve_observation_column ''RDI / AHI (n/h)'' = Inl ValueError"
  by (simp add: resolve_observation_column_def observation_loinc_mapping_dict_def)

subsection \<open>Conditions\<close>

text \<open>
  C4. The claim puts the assertion on the field \<^verbatim>\<open>system\<close>. A row with
  \<^verbatim>\<open>system\<close> ICD-10-GM and \<^verbatim>\<open>version\<close> 2020 passes both assertions of the claim,
  and the call still fails: the code reads the attribute \<^verbatim>\<open>sytem\<close>, which the row
  does not have.
\<close>

theorem create_condition_system_row_raises:
  "create_condition w
     (map_of [(''id'', PyStr ''D1''), (''system'', PyStr ''ICD-10-GM''),
              (''version'', PyStr ''2020''), (''code'', PyStr ''G47.31''),
              (''type'', PyStr ''Hauptdiagnose'')]) ''P1'' ''E1''
   = Inl (AttributeError ''sytem'')"
  by (simp add: create_condition_def getattr_def bind_err_def)

subsection \<open>Date and time\<close>

lemma split_no_sep: "sep \<notin> set s \<Longrightarrow> split sep s = [s]"
  by (induction s) auto

lemma split_at_first: "sep \<notin> set a \<Longrightarrow> split sep (a @ sep # b) = a # split sep b"
  by (induction a) auto

lemma split_concat: "set (concat (split sep s)) \<subseteq> set s"
proof (induction s)
  case Nil
  show ?case by simp
next
  case (Cons c cs)
  obtain w ws where ws: "split sep cs = w # ws"
    by (cases cs; cases "split sep cs") (auto split: if_splits list.splits)
  with Cons have "set w \<subseteq> set cs" and "set (concat ws) \<subseteq> set cs" by auto
  with ws show ?case by (cases "c = sep") auto
qed

lemma split_pieces: "p \<in> set (split sep s) \<Longrightarrow> set p \<subseteq> set s"
  using split_concat [of sep s] by auto

text \<open>What \<open>parse_date_time\<close> returns on a date, one space, a time, one dot and a
  fraction: the fraction cut to its first three characters, and after it the first
  three characters of the platform's \<^verbatim>\<open>%z\<close> text, a colon, and the characters of
  that text from the second to the third from the end.\<close>

lemma parse_date_time_form:
  assumes "CHR '' '' \<notin> set d" "CHR '' '' \<notin> set t" "CHR ''.'' \<notin> set t"
    "CHR '' '' \<notin> set f" "CHR ''.'' \<notin> set f"
  shows "parse_date_time w (PyStr (d @ '' '' @ t @ ''.'' @ f)) =
     Inr (FHIRDate (d @ ''T'' @ t @ ''.'' @ take 3 f
            @ take 3 (tz_format w) @ '':'' @ slice_1_m2 (tz_format w)))"
proof -
  have a: "CHR '' '' \<notin> set (t @ ''.'' @ f)" using assms by simp
  have s1: "split CHR '' '' (d @ '' '' @ t @ ''.'' @ f) = [d, t @ ''.'' @ f]"
    using split_at_first [OF assms(1), of "t @ ''.'' @ f"] split_no_sep [OF a] by simp
  have s2: "split CHR ''.'' (t @ ''.'' @ f) = [t, f]"
    using split_at_first [OF assms(3), of f] split_no_sep [OF assms(5)] by simp
  show ?thesis
    by (simp add: parse_date_time_def s1 s2 index_def strftime_z_def gmtime_def
        del: append.simps append_Cons)
qed

text \<open>Without a space, or without a dot, the call raises IndexError.\<close>

lemma parse_date_time_no_space:
  "CHR '' '' \<notin> set (py_str x) \<Longrightarrow> parse_date_time w x = Inl IndexError"
  by (simp add: parse_date_time_def split_no_sep index_def)

lemma parse_date_time_no_dot:
  assumes "CHR ''.'' \<notin> set (py_str x)"
  shows "parse_date_time w x = Inl IndexError"
proof (cases "1 < length (split CHR '' '' (py_str x))")
  case False
  then show ?thesis by (simp add: parse_date_time_def index_def)
next
  case True
  let ?t = "split CHR '' '' (py_str x) ! 1"
  from True have "?t \<in> set (split CHR '' '' (py_str x))" by simp
  then have "set ?t \<subseteq> set (py_str x)" by (rule split_pieces)
  with assms have "CHR ''.'' \<notin> set ?t" by auto
  then have "split CHR ''.'' ?t = [?t]" by (rule split_no_sep)
  with True show ?thesis by (simp add: parse_date_time_def index_def)
qed

text \<open>
  C5. The claim asks for the offset of the system written as sign, hours, colon,
  minutes. Where the platform renders \<^verbatim>\<open>%z\<close> as +0100, the code appends +01:01:
  after the colon it repeats the two digits of the hours, the slice
  \<^verbatim>\<open>[1:-2]\<close>, where the minutes are the last two. The date, the time and the three
  digits of the fraction are as the claim says.
\<close>

theorem parse_date_time_offset_minutes:
  "parse_date_time \<lparr>clock = 0, tz_format = ''+0100'', ResourceName_bound = True\<rparr>
     (PyStr ''2021-03-04 10:15:30.1234'')
   = Inr (FHIRDate ''2021-03-04T10:15:30.123+01:01'')"
  by (simp add: parse_date_time_def index_def slice_1_m2_def strftime_z_def gmtime_def)

subsection \<open>Dates\<close>

lemma is_digit_cases:
  "is_digit c \<Longrightarrow> c = CHR ''0'' \<or> c = CHR ''1'' \<or> c = CHR ''2'' \<or> c = CHR ''3'' \<or> c = CHR ''4''
     \<or> c = CHR ''5'' \<or> c = CHR ''6'' \<or> c = CHR ''7'' \<or> c = CHR ''8'' \<or> c = CHR ''9''"
  by (simp add: is_digit_def)

lemma digit_val_less: "is_digit c \<Longrightarrow> digit_val c < 10"
  by (drule is_digit_cases) (auto simp: digit_val_def)

lemma digit_char_val: "is_digit c \<Longrightarrow> digit_char (digit_val c) = c"
  by (drule is_digit_cases) (auto simp: digit_val_def digit_char_def)

lemma digit_char_step: "digit_char (10 * n + d) = digit_char d"
  by (simp add: digit_char_def)

lemma str_nat_small: "d < 10 \<Longrightarrow> str_nat d = [digit_char d]"
  by (simp add: str_nat.simps)

lemma str_nat_step: "0 < n \<Longrightarrow> d < 10 \<Longrightarrow> str_nat (10 * n + d) = str_nat n @ [digit_char d]"
  by (subst str_nat.simps) (simp add: digit_char_step)

lemma zfill_one: "d < 10 \<Longrightarrow> zfill (Suc 0) (str_nat d) = [digit_char d]"
  by (simp add: zfill_def str_nat_small)

lemma zfill_step:
  assumes "d < 10" "0 < k"
  shows "zfill (Suc k) (str_nat (10 * n + d)) = zfill k (str_nat n) @ [digit_char d]"
proof (cases "n = 0")
  case True
  have "replicate (k - Suc 0) CHR ''0'' @ ''0'' = replicate k CHR ''0''"
    using assms(2) by (cases k) (simp_all add: replicate_append_same)
  with True assms show ?thesis
    by (simp add: zfill_def str_nat_small digit_char_def)
next
  case False
  with assms show ?thesis
    by (simp add: zfill_def str_nat_step Suc_diff_le)
qed

lemma zfill_two:
  "a < 10 \<Longrightarrow> b < 10 \<Longrightarrow> zfill 2 (str_nat (10 * a + b)) = [digit_char a, digit_char b]"
  using zfill_step [of b "Suc 0" a] by (simp add: zfill_one numeral_2_eq_2)

lemma zfill_four:
  assumes "a < 10" "b < 10" "c < 10" "d < 10"
  shows "zfill 4 (str_nat (10 * (10 * (10 * a + b) + c) + d))
         = [digit_char a, digit_char b, digit_char c, digit_char d]"
proof -
  have "zfill (Suc 3) (str_nat (10 * (10 * (10 * a + b) + c) + d))
        = zfill 3 (str_nat (10 * (10 * a + b) + c)) @ [digit_char d]"
    using assms by (intro zfill_step) simp_all
  also have "zfill 3 (str_nat (10 * (10 * a + b) + c)) = zfill (Suc 2) (str_nat (10 * (10 * a + b) + c))"
    by (simp add: numeral_3_eq_3 numeral_2_eq_2)
  also have "\<dots> = zfill 2 (str_nat (10 * a + b)) @ [digit_char c]"
    using assms by (intro zfill_step) simp_all
  finally show ?thesis using assms by (simp add: zfill_two)
qed

lemma int_of_digits_two: "int_of_digits [a, b] = 10 * digit_val a + digit_val b"
  by (simp add: int_of_digits_def)

lemma int_of_digits_four:
  "int_of_digits [a, b, c, d] = 10 * (10 * (10 * digit_val a + digit_val b) + digit_val c) + digit_val d"
  by (simp add: int_of_digits_def)

lemma strftime_roundtrip:
  assumes "is_digit d1" "is_digit d2" "is_digit m1" "is_digit m2"
    "is_digit y1" "is_digit y2" "is_digit y3" "is_digit y4"
  shows "strftime_Ymd \<lparr>ts_year = int_of_digits [y1, y2, y3, y4],
            ts_month = int_of_digits [m1, m2], ts_day = int_of_digits [d1, d2]\<rparr>
         = [y1, y2, y3, y4, CHR ''-'', m1, m2, CHR ''-'', d1, d2]"
proof -
  have y: "zfill 4 (str_nat (int_of_digits [y1, y2, y3, y4])) = [y1, y2, y3, y4]"
    by (simp only: int_of_digits_four zfill_four digit_val_less digit_char_val assms)
  have m: "zfill 2 (str_nat (int_of_digits [m1, m2])) = [m1, m2]"
    by (simp only: int_of_digits_two zfill_two digit_val_less digit_char_val assms)
  have d: "zfill 2 (str_nat (int_of_digits [d1, d2])) = [d1, d2]"
    by (simp only: int_of_digits_two zfill_two digit_val_less digit_char_val assms)
  show ?thesis by (simp add: strftime_Ymd_def y m d)
qed

lemma parse_date_valid:
  assumes "is_digit d1" "is_digit d2" "is_digit m1" "is_digit m2"
    "is_digit y1" "is_digit y2" "is_digit y3" "is_digit y4"
    and "calendar_date (int_of_digits [d1, d2]) (int_of_digits [m1, m2])
           (int_of_digits [y1, y2, y3, y4])"
    and "in_Timestamp_bounds (int_of_digits [d1, d2]) (int_of_digits [m1, m2])
           (int_of_digits [y1, y2, y3, y4])"
  shows "parse_date ([d1, d2, CHR ''.'', m1, m2, CHR ''.'', y1, y2, y3, y4] @ suffix)
         = Inr (FHIRDate [y1, y2, y3, y4, CHR ''-'', m1, m2, CHR ''-'', d1, d2])"
  using assms(1-8) assms(9,10) strftime_roundtrip [OF assms(1-8)]
  by (simp add: parse_date_def pd_Timestamp_def Let_def)

lemma DATE_PATTERN_match_None:
  assumes "\<not> (\<exists>d1 d2 m1 m2 y1 y2 y3 y4 rest.
             s = [d1, d2, CHR ''.'', m1, m2, CHR ''.'', y1, y2, y3, y4] @ rest
             \<and> is_digit d1 \<and> is_digit d2 \<and> is_digit m1 \<and> is_digit m2
             \<and> is_digit y1 \<and> is_digit y2 \<and> is_digit y3 \<and> is_digit y4)"
  shows "DATE_PATTERN_match s = None"
  using assms by (cases s rule: DATE_PATTERN_match.cases) (auto split: if_splits)


text \<open>
  C6. The claim speaks of every valid input DD.MM.YYYY. That holds inside the range of
  \<^verbatim>\<open>pd.Timestamp\<close>: on an input of exactly the shape DD.MM.YYYY (two digits,
  a dot, two digits, a dot, four digits) whose fields are a calendar date from
  1677-09-22 to 2262-04-11, \<open>parse_date\<close> returns the same date written
  YYYY-MM-DD, digit for digit. On every input that the pattern does not match from its
  first character the call fails: the assertion on the match raises. Outside the
  range the call fails although the input is a calendar date in the right shape; the
  first of January 1500, after the witness, is such an input.
\<close>

theorem parse_date_normalizes:
  "(is_digit d1 \<and> is_digit d2 \<and> is_digit m1 \<and> is_digit m2
     \<and> is_digit y1 \<and> is_digit y2 \<and> is_digit y3 \<and> is_digit y4
     \<and> calendar_date (int_of_digits [d1, d2]) (int_of_digits [m1, m2])
           (int_of_digits [y1, y2, y3, y4])
     \<and> in_Timestamp_bounds (int_of_digits [d1, d2]) (int_of_digits [m1, m2])
           (int_of_digits [y1, y2, y3, y4])
    \<longrightarrow> parse_date [d1, d2, CHR ''.'', m1, m2, CHR ''.'', y1, y2, y3, y4]
          = Inr (FHIRDate [y1, y2, y3, y4, CHR ''-'', m1, m2, CHR ''-'', d1, d2]))
   \<and> (\<not> (\<exists>e1 e2 n1 n2 z1 z2 z3 z4 rest.
             s = [e1, e2, CHR ''.'', n1, n2, CHR ''.'', z1, z2, z3, z4] @ rest
             \<and> is_digit e1 \<and> is_digit e2 \<and> is_digit n1 \<and> is_digit n2
             \<and> is_digit z1 \<and> is_digit z2 \<and> is_digit z3 \<and> is_digit z4)
    \<longrightarrow> parse_date s = Inl AssertionError)"
proof (intro conjI impI)
  assume "is_digit d1 \<and> is_digit d2 \<and> is_digit m1 \<and> is_digit m2
     \<and> is_digit y1 \<and> is_digit y2 \<and> is_digit y3 \<and> is_digit y4
     \<and> calendar_date (int_of_digits [d1, d2]) (int_of_digits [m1, m2])
           (int_of_digits [y1, y2, y3, y4])
     \<and> in_Timestamp_bounds (int_of_digits [d1, d2]) (int_of_digits [m1, m2])
           (int_of_digits [y1, y2, y3, y4])"
  then show "parse_date [d1, d2, CHR ''.'', m1, m2, CHR ''.'', y1, y2, y3, y4]
          = Inr (FHIRDate [y1, y2, y3, y4, CHR ''-'', m1, m2, CHR ''-'', d1, d2])"
    using parse_date_valid [of d1 d2 m1 m2 y1 y2 y3 y4 "[]"] by simp
next
  assume "\<not> (\<exists>e1 e2 n1 n2 z1 z2 z3 z4 rest.
             s = [e1, e2, CHR ''.'', n1, n2, CHR ''.'', z1, z2, z3, z4] @ rest
             \<and> is_digit e1 \<and> is_digit e2 \<and> is_digit n1 \<and> is_digit n2
             \<and> is_digit z1 \<and> is_digit z2 \<and> is_digit z3 \<and> is_digit z4)"
  then have "DATE_PATTERN_match s = None" by (rule DATE_PATTERN_match_None)
  then show "parse_date s = Inl AssertionError" by (simp add: parse_date_def)
qed

theorem parse_date_normalizes_witness:
  "parse_date ''04.03.2021'' = Inr (FHIRDate ''2021-03-04'')
   \<and> parse_date ''4.3.2021'' = Inl AssertionError"
  using parse_date_normalizes [of "CHR ''0''" "CHR ''4''" "CHR ''0''" "CHR ''3''"
      "CHR ''2''" "CHR ''0''" "CHR ''2''" "CHR ''1''" "''4.3.2021''"]
  by (simp add: is_digit_def int_of_digits_def digit_val_def calendar_date_def
      days_in_month_def in_Timestamp_bounds_def date_le_def)

text \<open>
  The first of January 1500 has the shape DD.MM.YYYY and is a date of the calendar;
  the pattern matches it, \<^verbatim>\<open>pd.Timestamp\<close> cannot hold it, and the call ends
  in OutOfBoundsDatetime instead of the date 1500-01-01.
\<close>

theorem parse_date_out_of_range_counterexample:
  "DATE_PATTERN_match ''01.01.1500'' = Some (''01'', ''01'', ''1500'')
   \<and> calendar_date (int_of_digits ''01'') (int_of_digits ''01'') (int_of_digits ''1500'')
   \<and> parse_date ''01.01.1500'' = Inl OutOfBoundsDatetime
   \<and> parse_date ''01.01.1500'' \<noteq> Inr (FHIRDate ''1500-01-01'')"
  by (simp add: parse_date_def pd_Timestamp_def calendar_date_def days_in_month_def
      in_Timestamp_bounds_def date_le_def int_of_digits_def digit_val_def is_digit_def)




subsection \<open>Conditions: the fields read\<close>

lemma getattr_upd: "name \<noteq> other \<Longrightarrow> getattr (r(other := v)) name = getattr r name"
  by (simp add: getattr_def)

lemma create_condition_ignores_system:
  "create_condition w (diagnose_row(''system'' := v)) subject_ref_id encounter_ref_id
   = create_condition w diagnose_row subject_ref_id encounter_ref_id"
  by (simp add: create_condition_def getattr_upd Let_def cong: if_cong)

lemma create_condition_ignores_type:
  "create_condition w (diagnose_row(''type'' := v)) subject_ref_id encounter_ref_id
   = create_condition w diagnose_row subject_ref_id encounter_ref_id"
  by (simp add: create_condition_def getattr_upd Let_def cong: if_cong)

text \<open>
  C8. The assertion on the terminology reads the attribute \<^verbatim>\<open>sytem\<close>: a row that
  has \<^verbatim>\<open>system\<close> ICD-10-GM and \<^verbatim>\<open>version\<close> 2020 and no field \<^verbatim>\<open>sytem\<close>
  ends in the AttributeError of that look-up, not in a Condition.
\<close>

theorem create_condition_reads_sytem:
  "diagnose_row ''system'' = Some (PyStr ''ICD-10-GM'') \<Longrightarrow>
   diagnose_row ''version'' = Some (PyStr ''2020'') \<Longrightarrow>
   diagnose_row ''sytem'' = None \<Longrightarrow>
   create_condition w diagnose_row subject_ref_id encounter_ref_id
     = Inl (AttributeError ''sytem'')"
  by (simp add: create_condition_def getattr_def bind_err_def)

theorem create_condition_reads_sytem_witness:
  "create_condition \<lparr>clock = 0, tz_format = ''+0000'', ResourceName_bound = True\<rparr>
     (map_of [(''id'', PyStr ''D7''), (''system'', PyStr ''ICD-10-GM''),
              (''version'', PyStr ''2020''), (''code'', PyStr ''G47.31'')]) ''P7'' ''E7''
   = Inl (AttributeError ''sytem'')"
  by (rule create_condition_reads_sytem) simp_all

text \<open>
  C9. Whenever \<open>create_condition\<close> returns a Condition, its code holds one coding
  with the ICD-10-GM system, the version 2020 and the code of the row, and with no
  display; and the call returns the same Condition whatever the field \<^verbatim>\<open>type\<close> of
  the row holds, or when the row has none.
\<close>

theorem create_condition_no_display:
  "create_condition w diagnose_row subject_ref_id encounter_ref_id = Inr c \<Longrightarrow>
   (\<exists>row_code. diagnose_row ''code'' = Some row_code
      \<and> cc_coding (cond_code c) =
          [\<lparr>coding_system = ''http://fhir.de/CodeSystem/dimdi/icd-10-gm'',
            coding_version = ''2020'', coding_code = row_code, coding_display = None\<rparr>])
   \<and> (\<forall>v. create_condition w (diagnose_row(''type'' := v)) subject_ref_id encounter_ref_id
          = Inr c)"
proof -
  assume ok: "create_condition w diagnose_row subject_ref_id encounter_ref_id = Inr c"
  then have "\<exists>row_code. diagnose_row ''code'' = Some row_code
      \<and> cc_coding (cond_code c) =
          [\<lparr>coding_system = ''http://fhir.de/CodeSystem/dimdi/icd-10-gm'',
            coding_version = ''2020'', coding_code = row_code, coding_display = None\<rparr>]"
    by (auto simp: create_condition_def getattr_def bind_err_def Let_def
        split: option.splits sum.splits if_splits)
  moreover have "\<forall>v. create_condition w (diagnose_row(''type'' := v)) subject_ref_id
      encounter_ref_id = Inr c"
    using ok by (simp add: create_condition_ignores_type)
  ultimately show ?thesis by blast
qed

theorem create_condition_no_display_witness:
  "(\<exists>row_code.
      map_of [(''id'', PyStr ''D7''), (''sytem'', PyStr ''ICD-10-GM''),
              (''version'', PyStr ''2020''), (''code'', PyStr ''G47.31''),
              (''type'', PyStr ''Hauptdiagnose'')] ''code'' = Some row_code
      \<and> [\<lparr>coding_system = ''http://fhir.de/CodeSystem/dimdi/icd-10-gm'',
           coding_version = ''2020'', coding_code = PyStr ''G47.31'',
           coding_display = None\<rparr>] =
          [\<lparr>coding_system = ''http://fhir.de/CodeSystem/dimdi/icd-10-gm'',
            coding_version = ''2020'', coding_code = row_code, coding_display = None\<rparr>])
   \<and> (\<forall>v. create_condition \<lparr>clock = 0, tz_format = ''+0000'', ResourceName_bound = True\<rparr>
          ((map_of [(''id'', PyStr ''D7''), (''sytem'', PyStr ''ICD-10-GM''),
              (''version'', PyStr ''2020''), (''code'', PyStr ''G47.31''),
              (''type'', PyStr ''Hauptdiagnose'')])(''type'' := v)) ''P7'' ''E7''
        = Inr \<lparr>cond_identifier = [\<lparr>ident_value = PyStr ''D7''\<rparr>],
               cond_subject = \<lparr>ref_type = ''Patient'', ref_reference = ''Patient/P7''\<rparr>,
               cond_code = \<lparr>cc_coding =
                 [\<lparr>coding_system = ''http://fhir.de/CodeSystem/dimdi/icd-10-gm'',
                   coding_version = ''2020'', coding_code = PyStr ''G47.31'',
                   coding_display = None\<rparr>]\<rparr>,
               cond_category = ''encounter-diagnosis''\<rparr>)"
proof -
  have ok: "create_condition \<lparr>clock = 0, tz_format = ''+0000'', ResourceName_bound = True\<rparr>
      (map_of [(''id'', PyStr ''D7''), (''sytem'', PyStr ''ICD-10-GM''),
              (''version'', PyStr ''2020''), (''code'', PyStr ''G47.31''),
              (''type'', PyStr ''Hauptdiagnose'')]) ''P7'' ''E7''
    = Inr \<lparr>cond_identifier = [\<lparr>ident_value = PyStr ''D7''\<rparr>],
               cond_subject = \<lparr>ref_type = ''Patient'', ref_reference = ''Patient/P7''\<rparr>,
               cond_code = \<lparr>cc_coding =
                 [\<lparr>coding_system = ''http://fhir.de/CodeSystem/dimdi/icd-10-gm'',
                   coding_version = ''2020'', coding_code = PyStr ''G47.31'',
                   coding_display = None\<rparr>]\<rparr>,
               cond_category = ''encounter-diagnosis''\<rparr>"
    by (simp add: create_condition_def getattr_def bind_err_def ResourceName_PATIENT_def
        construct_identifier_def construct_reference_def)
  from create_condition_no_display [OF ok] show ?thesis by simp
qed

subsection \<open>What a builder reads\<close>

text \<open>Beside their arguments the builders read the binding of the global name
  \<^verbatim>\<open>ResourceName\<close>, and \<open>parse_date_time\<close> reads the text that the
  platform renders for \<^verbatim>\<open>%z\<close>; \<open>create_patient\<close> reads eight fields of
  its row.\<close>

lemma observation_loop_world:
  "ResourceName_bound w1 = ResourceName_bound w2 \<Longrightarrow>
   observation_loop w1 observation_row subject_ref_id keys acc
   = observation_loop w2 observation_row subject_ref_id keys acc"
proof (induction keys arbitrary: acc)
  case Nil
  show ?case by simp
next
  case (Cons key keys)
  obtain observation_list lg where acc: "acc = (observation_list, lg)" by (cases acc)
  show ?case
    using Cons
    by (simp add: acc bind_err_def ResourceName_PATIENT_def Let_def
        split: sum.splits prod.splits)
qed

lemma ResourceName_PATIENT_world:
  "ResourceName_bound w1 = ResourceName_bound w2 \<Longrightarrow>
   ResourceName_PATIENT w1 = ResourceName_PATIENT w2"
  by (simp add: ResourceName_PATIENT_def)

lemma parse_date_time_world:
  "tz_format w1 = tz_format w2 \<Longrightarrow> parse_date_time w1 x = parse_date_time w2 x"
  by (simp add: parse_date_time_def strftime_z_def cong: sum.case_cong)

lemma create_patient_fields:
  assumes "\<forall>k \<in> set patient_fields. r1 k = r2 k"
  shows "create_patient r1 = create_patient r2"
proof -
  from assms have "getattr r1 k = getattr r2 k" if "k \<in> set patient_fields" for k
    using that by (simp add: getattr_def)
  then show ?thesis by (simp add: create_patient_def patient_fields_def)
qed

subsection \<open>The example of the spec\<close>

lemma bind_err_Inl: "bind_err (Inl e) f = Inl e"
  by (simp add: bind_err_def)

lemma bind_err_Inr: "bind_err (Inr x) f = f x"
  by (simp add: bind_err_def)

lemma bind_err_weak_cong: "m = m' \<Longrightarrow> bind_err m f = bind_err m' f"
  by simp

text \<open>The row of the spec's example: the patient has the gender female, the birth
  date 1980-01-01 and the one identifier P1.\<close>

lemma create_patient_example:
  "create_patient
     (map_of [(''id'', PyStr ''P1''), (''first_name'', PyStr ''Anna''),
              (''last_name'', PyStr ''Muster''), (''sex'', PyStr ''w''),
              (''date_of_birth'', PyStr ''01.01.1980''), (''street'', PyStr ''Main St''),
              (''zip'', PyInt 12345), (''city'', PyStr ''Berlin'')])
   = Inr \<lparr>pat_identifier = [\<lparr>ident_value = PyStr ''P1''\<rparr>],
          pat_name = [\<lparr>name_given = [PyStr ''Anna''], name_family = PyStr ''Muster''\<rparr>],
          pat_gender = ''female'',
          pat_birthDate = FHIRDate ''1980-01-01'',
          pat_address = [\<lparr>addr_line = [PyStr ''Main St''], addr_postalCode = ''12345'',
                           addr_city = PyStr ''Berlin''\<rparr>]\<rparr>"
proof -
  have z: "str_int 12345 = ''12345''"
    by (simp add: str_int_def str_nat.simps digit_char_def)
  have d: "parse_date ''01.01.1980'' = Inr (FHIRDate ''1980-01-01'')"
    using parse_date_valid [of "CHR ''0''" "CHR ''1''" "CHR ''0''" "CHR ''1''"
        "CHR ''1''" "CHR ''9''" "CHR ''8''" "CHR ''0''" "[]"]
    by (simp add: is_digit_def int_of_digits_def digit_val_def calendar_date_def
        days_in_month_def in_Timestamp_bounds_def date_le_def)
  show ?thesis
    by (simp add: create_patient_def getattr_def bind_err_Inl bind_err_Inr map_gender_def
        construct_identifier_def z d cong: bind_err_weak_cong)
qed

end
